theory Spec2Isabelle
  imports Complex_Main
begin

section \<open>Python values and exceptions\<close>

text \<open>
  The module \<^verbatim>\<open>units.py\<close> computes with Python numbers. An \<^verbatim>\<open>int\<close> is an
  \<^typ>\<open>int\<close>; a \<^verbatim>\<open>float\<close> is idealised as a \<^typ>\<open>real\<close>: comparisons and
  the arithmetic \<^verbatim>\<open>+ - * /\<close> are exact, so rounding, infinities and NaN are outside
  this development. A value handed to a property setter can be of any class; the
  classes that matter to the \<^verbatim>\<open>isinstance\<close> tests are kept apart. \<^verbatim>\<open>bool\<close> is a
  subclass of \<^verbatim>\<open>int\<close> in Python, with \<^verbatim>\<open>True == 1\<close> and \<^verbatim>\<open>False == 0\<close>.
\<close>

datatype error = TypeError | ValueError | IndexError | StatisticsError

datatype pyval = PInt int | PFloat real | PBool bool | PStr string | PNone

fun isinstance_int :: "pyval \<Rightarrow> bool" where
  "isinstance_int (PInt i) = True"
| "isinstance_int (PBool b) = True"
| "isinstance_int v = False"

fun isinstance_float :: "pyval \<Rightarrow> bool" where
  "isinstance_float (PFloat r) = True"
| "isinstance_float v = False"

text \<open>The number a numeric value stands for, and the integer an \<^verbatim>\<open>int\<close> instance is.\<close>

fun num :: "pyval \<Rightarrow> real" where
  "num (PInt i) = real_of_int i"
| "num (PFloat r) = r"
| "num (PBool b) = (if b then 1 else 0)"
| "num v = 0"

fun int_of :: "pyval \<Rightarrow> int" where
  "int_of (PInt i) = i"
| "int_of (PBool b) = (if b then 1 else 0)"
| "int_of v = 0"

text \<open>A value is numeric when it is an instance of \<^verbatim>\<open>int\<close> or of \<^verbatim>\<open>float\<close>.\<close>

definition is_numeric :: "pyval \<Rightarrow> bool" where
  "is_numeric v = (isinstance_int v \<or> isinstance_float v)"

text \<open>
  A method runs on an object that it may change and either returns or raises. Its model
  takes the object's state and gives back the pair of what happened (\<open>Inl\<close> the
  exception, \<open>Inr\<close> the returned value) and the state the object is left in.
\<close>

section \<open>The random source\<close>

text \<open>
  Every unit holds a \<^verbatim>\<open>random.Random\<close> instance of the standard library. Its
  generator is not part of the module; an instance is modelled by the sequence of raw
  draws that its seed determines (\<open>tape\<close>) and the number of draws made so far
  (\<open>pos\<close>). \<^verbatim>\<open>randint(a, b)\<close> raises \<^verbatim>\<open>ValueError\<close> on an empty range and otherwise
  turns the next raw draw into an integer of \<open>[a, b]\<close>, both ends included;
  \<^verbatim>\<open>choice(seq)\<close> raises \<^verbatim>\<open>IndexError\<close> on an empty sequence and otherwise turns
  the next raw draw into a position of the sequence. Every sequence of results that a
  generator can produce is the result of some tape.
\<close>

record Random =
  tape :: "nat \<Rightarrow> nat"
  pos :: nat

definition advance :: "Random \<Rightarrow> Random" where
  "advance g = g\<lparr>pos := Suc (pos g)\<rparr>"

definition randint :: "int \<Rightarrow> int \<Rightarrow> Random \<Rightarrow> (error + int) \<times> Random" where
  "randint a b g =
     (if b < a then (Inl ValueError, g)
      else (Inr (a + int (tape g (pos g) mod nat (b - a + 1))), advance g))"

definition choice :: "'a list \<Rightarrow> Random \<Rightarrow> (error + 'a) \<times> Random" where
  "choice xs g =
     (if xs = [] then (Inl IndexError, g)
      else (Inr (xs ! (tape g (pos g) mod length xs)), advance g))"

section \<open>Unit\<close>

text \<open>
  The attributes of the abstract class: \<^verbatim>\<open>_init_health\<close>, \<^verbatim>\<open>recharge\<close>,
  \<^verbatim>\<open>random_\<close> (a reference to a \<^verbatim>\<open>Random\<close> instance, possibly shared with
  other units: the field \<open>random_src\<close> holds the address of the instance),
  \<^verbatim>\<open>_health\<close> and \<^verbatim>\<open>_last_attack\<close>.
  The subclasses extend the record, so that the setters of the base class work on both.
\<close>

record Unit =
  init_health :: real
  recharge :: int
  random_src :: nat
  health :: real
  last_attack :: real

definition health_setter :: "pyval \<Rightarrow> 'a Unit_scheme \<Rightarrow> (error + unit) \<times> 'a Unit_scheme" where
  "health_setter v u =
     (if \<not> isinstance_int v \<and> \<not> isinstance_float v then (Inl TypeError, u)
      else
        let u1 = u\<lparr>health := num v\<rparr>;
            u2 = (if health u1 > init_health u1 then u1\<lparr>health := init_health u1\<rparr> else u1);
            u3 = (if health u2 < 0 then u2\<lparr>health := 0\<rparr> else u2)
        in (Inr (), u3))"

definition last_attack_setter :: "pyval \<Rightarrow> 'a Unit_scheme \<Rightarrow> (error + unit) \<times> 'a Unit_scheme" where
  "last_attack_setter v u =
     (if \<not> isinstance_int v \<and> \<not> isinstance_float v then (Inl TypeError, u)
      else (Inr (), u\<lparr>last_attack := num v\<rparr>))"

text \<open>
  \<^verbatim>\<open>Unit.__init__(recharge, random_, health)\<close>. \<^verbatim>\<open>_init_health\<close> is bound to the
  argument before any test; the assignment to \<^verbatim>\<open>health\<close> then goes through the
  setter, and an exception there ends the construction. The attributes \<^verbatim>\<open>_health\<close>
  and \<^verbatim>\<open>_last_attack\<close> do not exist before their first assignment: the \<open>0\<close> they
  start with here is overwritten before it can be read.
\<close>

definition Unit_init :: "int \<Rightarrow> nat \<Rightarrow> pyval \<Rightarrow> error + Unit" where
  "Unit_init rc rnd h =
     (case health_setter h
             \<lparr>init_health = num h, recharge = rc, random_src = rnd, health = 0, last_attack = 0\<rparr> of
        (Inl e, u) \<Rightarrow> Inl e
      | (Inr r, u) \<Rightarrow>
          (case last_attack_setter (PInt 0) u of
             (Inl e, u') \<Rightarrow> Inl e
           | (Inr r', u') \<Rightarrow> Inr u'))"

definition is_ready :: "real \<Rightarrow> 'a Unit_scheme \<Rightarrow> bool" where
  "is_ready now u = (now - last_attack u \<ge> real_of_int (recharge u))"

section \<open>Soldier\<close>

record Soldier = Unit +
  experience :: int

definition experience_setter :: "pyval \<Rightarrow> Soldier \<Rightarrow> (error + unit) \<times> Soldier" where
  "experience_setter v s =
     (if \<not> isinstance_int v then (Inl TypeError, s)
      else
        let s1 = s\<lparr>experience := int_of v\<rparr>;
            s2 = (if experience s1 > 50 then s1\<lparr>experience := 50\<rparr> else s1);
            s3 = (if experience s2 < 0 then s2\<lparr>experience := 0\<rparr> else s2)
        in (Inr (), s3))"

text \<open>\<^verbatim>\<open>Soldier.__init__(random_, health, recharge, experience)\<close>.\<close>

definition Soldier_init :: "nat \<Rightarrow> pyval \<Rightarrow> int \<Rightarrow> pyval \<Rightarrow> error + Soldier" where
  "Soldier_init rnd h rc e =
     (case Unit_init rc rnd h of
        Inl err \<Rightarrow> Inl err
      | Inr u \<Rightarrow>
          (case experience_setter e (Unit.extend u (Soldier.fields 0)) of
             (Inl err, s) \<Rightarrow> Inl err
           | (Inr r, s) \<Rightarrow> Inr s))"

text \<open>
  The property \<^verbatim>\<open>success\<close> reads the soldier and draws from the soldier's random
  source, which is passed in and handed back. The health is divided by the literal
  \<^verbatim>\<open>100\<close>.
\<close>

definition Soldier_success :: "Soldier \<Rightarrow> Random \<Rightarrow> (error + real) \<times> Random" where
  "Soldier_success s g =
     (case randint (50 + experience s) 100 g of
        (Inl e, g') \<Rightarrow> (Inl e, g')
      | (Inr r, g') \<Rightarrow> (Inr (0.5 * (1 + health s / 100) * real_of_int r / 100), g'))"

definition Soldier_is_active :: "Soldier \<Rightarrow> bool" where
  "Soldier_is_active s = (health s > 0)"

definition Soldier_attack :: "pyval \<Rightarrow> Soldier \<Rightarrow> (error + real) \<times> Soldier" where
  "Soldier_attack now s =
     (case last_attack_setter now s of
        (Inl e, s1) \<Rightarrow> (Inl e, s1)
      | (Inr r, s1) \<Rightarrow>
          let current_experience = experience s1 in
          (case experience_setter (PInt (experience s1 + 1)) s1 of
             (Inl e, s2) \<Rightarrow> (Inl e, s2)
           | (Inr r', s2) \<Rightarrow> (Inr (0.05 + real_of_int current_experience / 100), s2)))"

text \<open>\<^verbatim>\<open>get_damage\<close> writes \<^verbatim>\<open>_health\<close> itself, not through the setter.\<close>

definition Soldier_get_damage :: "real \<Rightarrow> Soldier \<Rightarrow> Soldier" where
  "Soldier_get_damage v s = s\<lparr>health := health s - v\<rparr>"

section \<open>Vehicle\<close>

text \<open>
  A vehicle holds references to its operators: the list \<open>operators\<close> holds the
  addresses of soldiers in a store, so that the same soldier can stand in several lists,
  or several times in one, and \<^verbatim>\<open>is not\<close> is the comparison of addresses.
\<close>

record Vehicle = Unit +
  operators :: "nat list"

type_synonym soldier_store = "nat \<Rightarrow> Soldier"

definition Vehicle_init :: "nat list \<Rightarrow> nat \<Rightarrow> pyval \<Rightarrow> int \<Rightarrow> error + Vehicle" where
  "Vehicle_init ops rnd h rc =
     (case Unit_init rc rnd h of
        Inl err \<Rightarrow> Inl err
      | Inr u \<Rightarrow> Inr (Unit.extend u (Vehicle.fields ops)))"

definition alive_operators :: "Vehicle \<Rightarrow> soldier_store \<Rightarrow> nat list" where
  "alive_operators v S = filter (\<lambda>a. Soldier_is_active (S a)) (operators v)"

definition Vehicle_is_active :: "Vehicle \<Rightarrow> soldier_store \<Rightarrow> bool" where
  "Vehicle_is_active v S = (health v > 0 \<and> list_ex (\<lambda>a. Soldier_is_active (S a)) (operators v))"

definition Vehicle_attack :: "pyval \<Rightarrow> Vehicle \<Rightarrow> soldier_store \<Rightarrow> (error + real) \<times> Vehicle" where
  "Vehicle_attack now v S =
     (case last_attack_setter now v of
        (Inl e, v1) \<Rightarrow> (Inl e, v1)
      | (Inr r, v1) \<Rightarrow>
          (Inr (0.1 + real_of_int (sum_list (map (\<lambda>a. experience (S a)) (operators v1))) / 100), v1))"

text \<open>
  \<^verbatim>\<open>Vehicle.get_damage(value)\<close> changes the vehicle, the soldiers in the store and
  the vehicle's random source. The loop over \<^verbatim>\<open>rest_operators\<close> is \<open>damage_each\<close>.
\<close>

fun damage_each :: "real \<Rightarrow> nat list \<Rightarrow> soldier_store \<Rightarrow> soldier_store" where
  "damage_each d [] S = S"
| "damage_each d (a # as) S = damage_each d as (S(a := Soldier_get_damage d (S a)))"

definition Vehicle_get_damage ::
    "real \<Rightarrow> Vehicle \<Rightarrow> soldier_store \<Rightarrow> Random
       \<Rightarrow> (error + unit) \<times> (Vehicle \<times> soldier_store \<times> Random)" where
  "Vehicle_get_damage v vh S g =
     (let percent_60 = v / 100 * 60;
          percent_20 = v / 100 * 20
      in case health_setter (PFloat (health vh - percent_60)) vh of
           (Inl e, vh1) \<Rightarrow> (Inl e, (vh1, S, g))
         | (Inr r, vh1) \<Rightarrow>
             let alive = alive_operators vh1 S in
             if alive \<noteq> [] then
               (case choice alive g of
                  (Inl e, g1) \<Rightarrow> (Inl e, (vh1, S, g1))
                | (Inr random_o, g1) \<Rightarrow>
                    let S1 = S(random_o := Soldier_get_damage percent_20 (S random_o));
                        rest_operators = filter (\<lambda>a. a \<noteq> random_o) alive
                    in if rest_operators \<noteq> [] then
                         (Inr (), (vh1,
                            damage_each (percent_20 / real (max (length rest_operators) 1))
                              rest_operators S1,
                            g1))
                       else (Inr (), (vh1, S1, g1)))
             else (Inr (), (vh1, S, g)))"

text \<open>
  \<^verbatim>\<open>Vehicle.success\<close> reads \<^verbatim>\<open>success\<close> of every operator in turn, each drawing
  from its own random source; the sources live in a store, since units may share one.
  \<^verbatim>\<open>statistics.geometric_mean\<close> is the standard library's (Python 3.8 to 3.11):
  \<^verbatim>\<open>exp(fmean(map(log, data)))\<close>, where a \<^verbatim>\<open>ValueError\<close> (the logarithm of a value
  that is not positive, met while the generator is consumed) and an empty data set are
  reported as \<^verbatim>\<open>StatisticsError\<close>. For positive values it is the \<open>n\<close>-th root of
  their product. \<open>operators_success\<close> is the generator
  \<^verbatim>\<open>(o.success for o in self.operators)\<close> as the mean consumes it: it stops at the first
  read that raises and at the first value whose logarithm raises.
\<close>

type_synonym random_store = "nat \<Rightarrow> Random"

fun operators_success :: "nat list \<Rightarrow> soldier_store \<Rightarrow> random_store \<Rightarrow> (error + real list) \<times> random_store" where
  "operators_success [] S R = (Inr [], R)"
| "operators_success (a # as) S R =
     (case Soldier_success (S a) (R (random_src (S a))) of
        (Inl e, g) \<Rightarrow> (Inl e, R(random_src (S a) := g))
      | (Inr p, g) \<Rightarrow>
          if p \<le> 0 then (Inl ValueError, R(random_src (S a) := g))
          else
            (case operators_success as S (R(random_src (S a) := g)) of
               (Inl e, R') \<Rightarrow> (Inl e, R')
             | (Inr ps, R') \<Rightarrow> (Inr (p # ps), R')))"

definition geometric_mean ::
    "nat list \<Rightarrow> soldier_store \<Rightarrow> random_store \<Rightarrow> (error + real) \<times> random_store" where
  "geometric_mean ops S R =
     (case operators_success ops S R of
        (Inl ValueError, R') \<Rightarrow> (Inl StatisticsError, R')
      | (Inl e, R') \<Rightarrow> (Inl e, R')
      | (Inr ps, R') \<Rightarrow>
          if ps = [] then (Inl StatisticsError, R')
          else (Inr (root (length ps) (prod_list ps)), R'))"

definition Vehicle_success ::
    "Vehicle \<Rightarrow> soldier_store \<Rightarrow> random_store \<Rightarrow> (error + real) \<times> random_store" where
  "Vehicle_success v S R =
     (case geometric_mean (operators v) S R of
        (Inl e, R') \<Rightarrow> (Inl e, R')
      | (Inr m, R') \<Rightarrow> (Inr (0.5 * (1 + health v / 100) * m), R'))"

section \<open>Runs of calls on shared objects\<close>

text \<open>
  The objects a driver holds: random sources, soldiers and vehicles, each at an address.
  A call names the object it is made on; \<open>step\<close> makes the call and writes the changed
  objects back; \<open>run\<close> makes a sequence of calls and records, after every call, what it
  gave and the state of all objects. An exception that nothing catches ends the run.
\<close>

record world =
  randoms :: random_store
  soldiers :: soldier_store
  vehicles :: "nat \<Rightarrow> Vehicle"

datatype call =
    SoldierSuccess nat
  | SoldierAttack nat pyval
  | SoldierGetDamage nat real
  | VehicleSuccess nat
  | VehicleAttack nat pyval
  | VehicleGetDamage nat real

datatype outcome = Raised error | Returned real | ReturnedNone

fun step :: "call \<Rightarrow> world \<Rightarrow> outcome \<times> world" where
  "step (SoldierSuccess a) w =
     (let s = soldiers w a in
      case Soldier_success s (randoms w (random_src s)) of
        (Inl e, g) \<Rightarrow> (Raised e, w\<lparr>randoms := (randoms w)(random_src s := g)\<rparr>)
      | (Inr p, g) \<Rightarrow> (Returned p, w\<lparr>randoms := (randoms w)(random_src s := g)\<rparr>))"
| "step (SoldierAttack a now) w =
     (case Soldier_attack now (soldiers w a) of
        (Inl e, s) \<Rightarrow> (Raised e, w\<lparr>soldiers := (soldiers w)(a := s)\<rparr>)
      | (Inr p, s) \<Rightarrow> (Returned p, w\<lparr>soldiers := (soldiers w)(a := s)\<rparr>))"
| "step (SoldierGetDamage a v) w =
     (ReturnedNone, w\<lparr>soldiers := (soldiers w)(a := Soldier_get_damage v (soldiers w a))\<rparr>)"
| "step (VehicleSuccess a) w =
     (case Vehicle_success (vehicles w a) (soldiers w) (randoms w) of
        (Inl e, R) \<Rightarrow> (Raised e, w\<lparr>randoms := R\<rparr>)
      | (Inr p, R) \<Rightarrow> (Returned p, w\<lparr>randoms := R\<rparr>))"
| "step (VehicleAttack a now) w =
     (case Vehicle_attack now (vehicles w a) (soldiers w) of
        (Inl e, vh) \<Rightarrow> (Raised e, w\<lparr>vehicles := (vehicles w)(a := vh)\<rparr>)
      | (Inr p, vh) \<Rightarrow> (Returned p, w\<lparr>vehicles := (vehicles w)(a := vh)\<rparr>))"
| "step (VehicleGetDamage a v) w =
     (let vh = vehicles w a in
      case Vehicle_get_damage v vh (soldiers w) (randoms w (random_src vh)) of
        (r, (vh', S', g')) \<Rightarrow>
          ((case r of Inl e \<Rightarrow> Raised e | Inr n \<Rightarrow> ReturnedNone),
           w\<lparr>randoms := (randoms w)(random_src vh := g'),
             soldiers := S',
             vehicles := (vehicles w)(a := vh')\<rparr>))"

fun run :: "call list \<Rightarrow> world \<Rightarrow> (outcome \<times> world) list" where
  "run [] w = []"
| "run (c # cs) w =
     (case step c w of
        (Raised e, w') \<Rightarrow> [(Raised e, w')]
      | (r, w') \<Rightarrow> (r, w') # run cs w')"

text \<open>
  The operator that \<^verbatim>\<open>get_damage\<close> binds to \<^verbatim>\<open>random_o\<close>, if it binds one, and
  the selections that the calls of a run make, one entry per call made.
\<close>

definition random_operator :: "Vehicle \<Rightarrow> soldier_store \<Rightarrow> Random \<Rightarrow> nat option" where
  "random_operator vh S g =
     (if alive_operators vh S = [] then None
      else (case fst (choice (alive_operators vh S) g) of
              Inl e \<Rightarrow> None
            | Inr c \<Rightarrow> Some c))"

fun selection :: "call \<Rightarrow> world \<Rightarrow> nat option" where
  "selection (VehicleGetDamage a v) w =
     random_operator (vehicles w a) (soldiers w) (randoms w (random_src (vehicles w a)))"
| "selection c w = None"

fun selections :: "call list \<Rightarrow> world \<Rightarrow> nat option list" where
  "selections [] w = []"
| "selections (c # cs) w =
     selection c w #
     (case step c w of
        (Raised e, w') \<Rightarrow> []
      | (r, w') \<Rightarrow> selections cs w')"

text \<open>
  Two random sources are seeded and used alike when the draws they still have to give
  are the same: the raw draws from the current position on. Two worlds are alike when
  their soldiers are in equal states, their vehicles are in equal states and their random
  sources are seeded and used alike. Nothing is asked of the draws already made.
\<close>

definition same_draws :: "Random \<Rightarrow> Random \<Rightarrow> bool" where
  "same_draws g1 g2 = (\<forall>n. tape g1 (pos g1 + n) = tape g2 (pos g2 + n))"

definition same_state :: "world \<Rightarrow> world \<Rightarrow> bool" where
  "same_state w1 w2 =
     (soldiers w1 = soldiers w2 \<and> vehicles w1 = vehicles w2
      \<and> (\<forall>k. same_draws (randoms w1 k) (randoms w2 k)))"

section \<open>Example objects\<close>

text \<open>
  A random source whose every raw draw is \<open>k\<close>, and the soldier that
  \<^verbatim>\<open>Soldier(random_, health=h, recharge=100, experience=e)\<close> builds for
  \<open>0 \<le> h\<close> and \<open>0 \<le> e \<le> 50\<close>.
\<close>

definition constant_source :: "nat \<Rightarrow> Random" where
  "constant_source k = \<lparr>tape = (\<lambda>n. k), pos = 0\<rparr>"

definition new_soldier :: "real \<Rightarrow> int \<Rightarrow> Soldier" where
  "new_soldier h e =
     \<lparr>init_health = h, recharge = 100, random_src = 0, health = h, last_attack = 0,
      experience = e\<rparr>"

definition new_vehicle :: "nat list \<Rightarrow> Vehicle" where
  "new_vehicle ops =
     \<lparr>init_health = 100, recharge = 1001, random_src = 0, health = 100, last_attack = 0,
      operators = ops\<rparr>"

definition new_world :: "nat \<Rightarrow> world" where
  "new_world k =
     \<lparr>randoms = (\<lambda>r. constant_source k),
      soldiers = (\<lambda>a. new_soldier 100 0),
      vehicles = (\<lambda>a. new_vehicle [0, 1, 2])\<rparr>"

text \<open>
  A world whose sources give the raw draws 0, 1, 2, ... from now on, after \<open>p\<close> draws
  already made: the vehicle 1 has the soldier 0 as its only operator, every other vehicle
  the soldiers 0, 1 and 2.
\<close>

definition counting_world :: "nat \<Rightarrow> world" where
  "counting_world p =
     \<lparr>randoms = (\<lambda>r. \<lparr>tape = (\<lambda>n. n - p), pos = p\<rparr>),
      soldiers = (\<lambda>a. new_soldier 100 0),
      vehicles = (\<lambda>a. new_vehicle [0, 1, 2])(1 := new_vehicle [0])\<rparr>"

section \<open>The random source stays in range\<close>

lemma randint_in_range:
  assumes "a \<le> b"
  shows "\<exists>r. randint a b g = (Inr r, advance g) \<and> a \<le> r \<and> r \<le> b"
proof -
  have "0 < nat (b - a + 1)" using assms by simp
  then have "tape g (pos g) mod nat (b - a + 1) < nat (b - a + 1)" by (rule mod_less_divisor)
  then have "int (tape g (pos g) mod nat (b - a + 1)) \<le> b - a" using assms by linarith
  then show ?thesis using assms by (simp add: randint_def)
qed

lemma choice_member:
  "xs \<noteq> [] \<Longrightarrow> \<exists>c. choice xs g = (Inr c, advance g) \<and> c \<in> set xs"
  by (simp add: choice_def)

section \<open>The setters\<close>

lemma health_setter_numeric:
  "is_numeric v \<Longrightarrow>
     health_setter v u =
       (Inr (), u\<lparr>health := (if init_health u < num v
                               then (if init_health u < 0 then 0 else init_health u)
                               else if num v < 0 then 0 else num v)\<rparr>)"
  by (auto simp add: is_numeric_def health_setter_def Let_def)

lemma experience_setter_int:
  "isinstance_int v \<Longrightarrow>
     experience_setter v s = (Inr (), s\<lparr>experience := max 0 (min 50 (int_of v))\<rparr>)"
  by (auto simp add: experience_setter_def Let_def)

lemma experience_setter_range:
  "0 \<le> experience (snd (experience_setter (PInt i) s))
   \<and> experience (snd (experience_setter (PInt i) s)) \<le> 50"
  by (simp add: experience_setter_int)

lemma Soldier_init_experience:
  "0 \<le> experience s \<and> experience s \<le> 50" if "Soldier_init rnd h rc e = Inr s"
proof (cases "isinstance_int e")
  case True
  with that show ?thesis
    by (auto simp add: Soldier_init_def experience_setter_int split: sum.splits)
next
  case False
  with that show ?thesis
    by (auto simp add: Soldier_init_def experience_setter_def split: sum.splits)
qed

lemma Soldier_attack_experience:
  "0 \<le> experience (snd (Soldier_attack now s)) \<and> experience (snd (Soldier_attack now s)) \<le> 50"
  if "0 \<le> experience s" and "experience s \<le> 50"
  using that
  by (cases "is_numeric now")
     (auto simp add: Soldier_attack_def last_attack_setter_def is_numeric_def
        experience_setter_int)

lemma Soldier_init_new_soldier:
  "0 \<le> h \<Longrightarrow> 0 \<le> e \<Longrightarrow> e \<le> 50 \<Longrightarrow>
     Soldier_init 0 (PInt h) 100 (PInt e) = Inr (new_soldier (real_of_int h) e)"
  by (simp add: Soldier_init_def Unit_init_def health_setter_numeric is_numeric_def
        last_attack_setter_def experience_setter_int new_soldier_def
        Unit.extend_def Soldier.fields_def)

lemma Vehicle_get_damage_hull:
  "fst (snd (Vehicle_get_damage v vh S g)) = snd (health_setter (PFloat (health vh - v / 100 * 60)) vh)"
  unfolding Vehicle_get_damage_def
  by (simp add: health_setter_numeric is_numeric_def Let_def split: prod.splits sum.splits)

text \<open>
  C7. Assigning a value that is not numeric to \<^verbatim>\<open>health\<close> or to
  \<^verbatim>\<open>last_attack\<close> raises \<^verbatim>\<open>TypeError\<close>, and so does assigning a value that is not
  an \<^verbatim>\<open>int\<close> instance to \<^verbatim>\<open>experience\<close>; the object is then exactly as it was, so
  the stored value is unchanged. A numeric value assigned to \<^verbatim>\<open>health\<close> or
  \<^verbatim>\<open>last_attack\<close>, and an \<^verbatim>\<open>int\<close> instance assigned to \<^verbatim>\<open>experience\<close>, never
  raise.
\<close>

theorem setters_raise_TypeError:
  "(\<not> is_numeric v \<longrightarrow>
      health_setter v u = (Inl TypeError, u) \<and> last_attack_setter v u' = (Inl TypeError, u'))
   \<and> (\<not> isinstance_int v \<longrightarrow> experience_setter v s = (Inl TypeError, s))
   \<and> (is_numeric v \<longrightarrow>
        fst (health_setter v u) = Inr () \<and> fst (last_attack_setter v u') = Inr ())
   \<and> (isinstance_int v \<longrightarrow> fst (experience_setter v s) = Inr ())"
  by (simp add: is_numeric_def health_setter_def last_attack_setter_def experience_setter_def
        Let_def)

text \<open>
  C7, at concrete values: a string is refused by all three setters and leaves the soldier
  as it was, a float is refused by the experience setter only, an integer is accepted by
  all three.
\<close>

theorem setters_raise_TypeError_witness:
  "health_setter (PStr ''full'') (new_soldier 100 0) = (Inl TypeError, new_soldier 100 0)
   \<and> last_attack_setter (PStr ''full'') (new_soldier 100 0) = (Inl TypeError, new_soldier 100 0)
   \<and> experience_setter (PStr ''full'') (new_soldier 100 0) = (Inl TypeError, new_soldier 100 0)
   \<and> experience_setter (PFloat 3) (new_soldier 100 0) = (Inl TypeError, new_soldier 100 0)
   \<and> fst (health_setter (PFloat 3) (new_soldier 100 0)) = Inr ()
   \<and> fst (health_setter (PInt 7) (new_soldier 100 0)) = Inr ()
   \<and> fst (last_attack_setter (PInt 7) (new_soldier 100 0)) = Inr ()
   \<and> fst (experience_setter (PInt 7) (new_soldier 100 0)) = Inr ()"
  using setters_raise_TypeError [of "PStr ''full''" "new_soldier 100 0" "new_soldier 100 0" "new_soldier 100 0"]
    setters_raise_TypeError [of "PFloat 3" "new_soldier 100 0" "new_soldier 100 0" "new_soldier 100 0"]
    setters_raise_TypeError [of "PInt 7" "new_soldier 100 0" "new_soldier 100 0" "new_soldier 100 0"]
  by (simp add: is_numeric_def)

text \<open>
  C3, as stated, fails for a unit built with a negative health: \<^verbatim>\<open>_init_health\<close> is
  \<open>-10\<close>, and after \<^verbatim>\<open>unit.health = 5\<close> the stored health is \<open>0\<close>, above
  \<^verbatim>\<open>_init_health\<close>.
\<close>

theorem health_setter_negative_initial_counterexample:
  "Unit_init 100 0 (PInt (- 10)) =
     Inr \<lparr>init_health = - 10, recharge = 100, random_src = 0, health = 0, last_attack = 0\<rparr>
   \<and> \<not> (0 \<le> health (snd (health_setter (PInt 5)
            \<lparr>init_health = - 10, recharge = 100, random_src = 0, health = 0, last_attack = 0\<rparr>))
        \<and> health (snd (health_setter (PInt 5)
            \<lparr>init_health = - 10, recharge = 100, random_src = 0, health = 0, last_attack = 0\<rparr>))
          \<le> init_health (snd (health_setter (PInt 5)
            \<lparr>init_health = - 10, recharge = 100, random_src = 0, health = 0, last_attack = 0\<rparr>)))"
  by (simp add: Unit_init_def health_setter_numeric is_numeric_def last_attack_setter_def)

text \<open>
  C3 (amended). For every unit whose \<^verbatim>\<open>_init_health\<close> is not negative and every
  numeric value \<open>v\<close> assigned to \<^verbatim>\<open>health\<close> through the setter, the stored health
  is \<open>v\<close> clamped into \<open>[0, _init_health]\<close>, so \<open>0 \<le> health \<le> _init_health\<close>
  holds right after the assignment; \<^verbatim>\<open>_init_health\<close> itself is not changed. The same
  holds for the hull step of \<^verbatim>\<open>Vehicle.get_damage\<close>, which assigns the health less
  60 percent of the damage.
\<close>

theorem health_setter_clamps:
  assumes "0 \<le> init_health u" and "is_numeric v" and "0 \<le> init_health vh"
  shows "health (snd (health_setter v u)) = max 0 (min (init_health u) (num v))
         \<and> 0 \<le> health (snd (health_setter v u))
         \<and> health (snd (health_setter v u)) \<le> init_health (snd (health_setter v u))
         \<and> init_health (snd (health_setter v u)) = init_health u
         \<and> health (fst (snd (Vehicle_get_damage d vh S g)))
             = max 0 (min (init_health vh) (health vh - 0.6 * d))
         \<and> init_health (fst (snd (Vehicle_get_damage d vh S g))) = init_health vh"
  using assms
  by (auto simp add: health_setter_numeric Vehicle_get_damage_hull is_numeric_def)

text \<open>
  C3 (amended), at concrete values: a soldier of initial health 100 is assigned 150, and a
  vehicle of health 100 takes a damage of 30.
\<close>

theorem health_setter_clamps_witness:
  "health (snd (health_setter (PInt 150) (new_soldier 100 0))) = 100
   \<and> health (fst (snd (Vehicle_get_damage 30 (new_vehicle [0, 1, 2]) (\<lambda>a. new_soldier 100 0)
        (constant_source 0)))) = 82"
  using health_setter_clamps [of "new_soldier 100 0" "PInt 150" "new_vehicle [0, 1, 2]" 30
      "\<lambda>a. new_soldier 100 0" "constant_source 0"]
  by (simp add: is_numeric_def new_soldier_def new_vehicle_def)



section \<open>Soldier\<close>

text \<open>
  C1, as stated, fails for a soldier whose initial health is not 100. The soldier that
  \<^verbatim>\<open>Soldier(random_, health=50, experience=50)\<close> builds has full health \<open>50\<close> and
  draws from \<open>[100, 100]\<close>: its \<^verbatim>\<open>success\<close> is \<open>0.5 * (1 + 50/100) * 100/100\<close>, that is
  \<open>3/4\<close>, and not \<open>0.5 * (1 + health/_init_health) * 100/100\<close>, which is \<open>1\<close>.
\<close>

theorem Soldier_success_init_health_counterexample:
  "Soldier_init 0 (PInt 50) 100 (PInt 50) = Inr (new_soldier 50 50)
   \<and> 50 + experience (new_soldier 50 50) = 100
   \<and> fst (Soldier_success (new_soldier 50 50) (constant_source 0)) = Inr (3 / 4)
   \<and> fst (Soldier_success (new_soldier 50 50) (constant_source 0))
       \<noteq> Inr (0.5 * (1 + health (new_soldier 50 50) / init_health (new_soldier 50 50))
                * real_of_int 100 / 100)"
  using Soldier_init_new_soldier [of 50 50]
  by (simp add: Soldier_success_def randint_def constant_source_def new_soldier_def)

text \<open>
  C1 (amended). For every soldier with current health \<open>h\<close> and experience \<open>e\<close>
  (at most 50, as the experience setter leaves it), whatever its initial health, every
  read of \<^verbatim>\<open>success\<close> makes exactly one draw \<open>r\<close> from the soldier's random source,
  an integer of \<open>[50 + e, 100]\<close> with both ends included, and returns
  \<open>0.5 * (1 + h/100) * r / 100\<close>: the health is divided by the constant 100.
\<close>

theorem Soldier_success_formula:
  assumes "experience s \<le> 50"
  shows "\<exists>r. 50 + experience s \<le> r \<and> r \<le> 100
             \<and> randint (50 + experience s) 100 g = (Inr r, advance g)
             \<and> Soldier_success s g
                 = (Inr (0.5 * (1 + health s / 100) * real_of_int r / 100), advance g)"
proof -
  from assms have "50 + experience s \<le> 100" by simp
  from randint_in_range [OF this, of g] obtain r where
    "randint (50 + experience s) 100 g = (Inr r, advance g)"
    and "50 + experience s \<le> r" and "r \<le> 100"
    by blast
  then show ?thesis by (auto simp add: Soldier_success_def)
qed

text \<open>
  C1 (amended), at a soldier of health 80 out of 100 with experience 10, on a source whose
  next raw draw is 7: the draw is \<open>60 + 7 mod 41 = 67\<close>.
\<close>

theorem Soldier_success_formula_witness:
  "Soldier_success ((new_soldier 100 10)\<lparr>health := 80\<rparr>) (constant_source 7)
     = (Inr (0.5 * (1 + 80 / 100) * 67 / 100), advance (constant_source 7))"
  using Soldier_success_formula [of "(new_soldier 100 10)\<lparr>health := 80\<rparr>" "constant_source 7"]
  by (simp add: new_soldier_def randint_def constant_source_def)

text \<open>
  C6, as stated, fails in both directions. A soldier built with health 300 and experience
  50 reads the success \<open>2\<close>; a soldier built with health 100 and experience 50 that has
  taken the damage 300 has the health \<open>-200\<close> and reads the success \<open>-1/2\<close>.
\<close>

theorem Soldier_success_range_counterexample:
  "Soldier_init 0 (PInt 300) 100 (PInt 50) = Inr (new_soldier 300 50)
   \<and> fst (Soldier_success (new_soldier 300 50) (constant_source 0)) = Inr 2
   \<and> \<not> (2 :: real) \<le> 1
   \<and> Soldier_init 0 (PInt 100) 100 (PInt 50) = Inr (new_soldier 100 50)
   \<and> fst (Soldier_success (Soldier_get_damage 300 (new_soldier 100 50)) (constant_source 0))
       = Inr (- 1 / 2)
   \<and> \<not> (0 :: real) \<le> - 1 / 2"
  using Soldier_init_new_soldier [of 300 50] Soldier_init_new_soldier [of 100 50]
  by (simp add: Soldier_success_def Soldier_get_damage_def randint_def constant_source_def
        new_soldier_def)

text \<open>
  C6 (amended). For every soldier whose current health lies in \<open>[-100, 100]\<close> (and whose
  experience lies in \<open>[0, 50]\<close>, as the experience setter leaves it), whatever the state
  of its random source, every read of \<^verbatim>\<open>success\<close> returns a value of \<open>[0, 1]\<close>.
\<close>

theorem Soldier_success_range:
  assumes "0 \<le> experience s" and "experience s \<le> 50"
    and "- 100 \<le> health s" and "health s \<le> 100"
  shows "\<exists>p. fst (Soldier_success s g) = Inr p \<and> 0 \<le> p \<and> p \<le> 1"
proof -
  from assms have "50 + experience s \<le> 100" by simp
  from randint_in_range [OF this, of g] obtain r where
    r: "randint (50 + experience s) 100 g = (Inr r, advance g)"
      "50 + experience s \<le> r" "r \<le> 100"
    by blast
  define x where "x = 1 + health s / 100"
  define y where "y = real_of_int r / 100"
  have x: "0 \<le> x" "x \<le> 2" using assms by (simp_all add: x_def)
  have y: "0 \<le> y" "y \<le> 1" using r assms by (simp_all add: y_def)
  have "0 \<le> x * y" using x y by simp
  moreover have "x * y \<le> 2 * 1" using x y by (intro mult_mono) simp_all
  ultimately have "0 \<le> 0.5 * x * y" "0.5 * x * y \<le> 1" by simp_all
  moreover have "fst (Soldier_success s g) = Inr (0.5 * x * y)"
    using r by (simp add: Soldier_success_def x_def y_def)
  ultimately show ?thesis by blast
qed

text \<open>C6 (amended), at a fresh soldier of health 100 on a source whose next raw draw is 7.\<close>

theorem Soldier_success_range_witness:
  "fst (Soldier_success (new_soldier 100 0) (constant_source 7)) = Inr (57 / 100)
   \<and> (\<exists>p. fst (Soldier_success (new_soldier 100 0) (constant_source 7)) = Inr p
          \<and> 0 \<le> p \<and> p \<le> 1)"
  using Soldier_success_range [of "new_soldier 100 0" "constant_source 7"]
  by (simp add: new_soldier_def Soldier_success_def randint_def constant_source_def)

text \<open>
  C4, as stated, fails at the cap: a soldier built with experience 50 still has experience
  50, not 51, after \<^verbatim>\<open>attack(10)\<close>, since the increment goes through the clamping
  setter.
\<close>

theorem Soldier_attack_cap_counterexample:
  "Soldier_init 0 (PInt 100) 100 (PInt 50) = Inr (new_soldier 100 50)
   \<and> experience (snd (Soldier_attack (PInt 10) (new_soldier 100 50))) = 50
   \<and> experience (snd (Soldier_attack (PInt 10) (new_soldier 100 50)))
       \<noteq> experience (new_soldier 100 50) + 1"
  using Soldier_init_new_soldier [of 100 50]
  by (simp add: Soldier_attack_def last_attack_setter_def experience_setter_int new_soldier_def)

text \<open>
  C4 (amended). For every soldier with experience \<open>e\<close> and every numeric \<open>now\<close>,
  \<^verbatim>\<open>attack(now)\<close> sets \<^verbatim>\<open>last_attack\<close> to \<open>now\<close>, assigns \<open>e + 1\<close> to
  \<^verbatim>\<open>experience\<close> through the clamping setter on every call, so that the experience grows
  by exactly 1 when \<open>0 \<le> e < 50\<close> and stays 50 at the cap, changes nothing else, and
  returns \<open>0.05 + e/100\<close> for the experience \<open>e\<close> read before the increment.
\<close>

theorem Soldier_attack_effect:
  assumes "is_numeric now"
  shows "Soldier_attack now s =
           (Inr (0.05 + real_of_int (experience s) / 100),
            s\<lparr>last_attack := num now, experience := max 0 (min 50 (experience s + 1))\<rparr>)
         \<and> (0 \<le> experience s \<and> experience s < 50 \<longrightarrow>
              experience (snd (Soldier_attack now s)) = experience s + 1)
         \<and> (experience s = 50 \<longrightarrow> experience (snd (Soldier_attack now s)) = 50)"
  using assms
  by (simp add: Soldier_attack_def last_attack_setter_def is_numeric_def experience_setter_int)

text \<open>
  C4 (amended), at a fresh soldier attacking at time 10 (the scenario of the
  specification), and at a soldier at the cap.
\<close>

theorem Soldier_attack_effect_witness:
  "Soldier_attack (PInt 10) (new_soldier 100 0)
     = (Inr (5 / 100), (new_soldier 100 0)\<lparr>last_attack := 10, experience := 1\<rparr>)
   \<and> Soldier_attack (PInt 10) (new_soldier 100 50)
     = (Inr (55 / 100), (new_soldier 100 50)\<lparr>last_attack := 10\<rparr>)"
  using Soldier_attack_effect [of "PInt 10" "new_soldier 100 0"]
    Soldier_attack_effect [of "PInt 10" "new_soldier 100 50"]
  by (simp add: is_numeric_def new_soldier_def)

text \<open>
  C5. For every soldier with stored health \<open>h\<close> and every number \<open>v\<close>,
  \<^verbatim>\<open>get_damage(v)\<close> stores exactly \<open>h - v\<close>, unclamped, and changes no other
  attribute; the property \<^verbatim>\<open>health\<close> then reads that value: below 0 when \<open>v\<close> exceeds
  \<open>h\<close>, above the initial health when \<open>v\<close> is negative enough.
\<close>

theorem Soldier_get_damage_unclamped:
  "health (Soldier_get_damage v s) = health s - v
   \<and> init_health (Soldier_get_damage v s) = init_health s
   \<and> experience (Soldier_get_damage v s) = experience s
   \<and> last_attack (Soldier_get_damage v s) = last_attack s
   \<and> recharge (Soldier_get_damage v s) = recharge s
   \<and> random_src (Soldier_get_damage v s) = random_src s
   \<and> (health s < v \<longrightarrow> health (Soldier_get_damage v s) < 0)
   \<and> (v < health s - init_health s \<longrightarrow>
        init_health (Soldier_get_damage v s) < health (Soldier_get_damage v s))"
  by (simp add: Soldier_get_damage_def)

text \<open>
  C5, at a soldier of health 100: the damage 150 leaves the health \<open>-50\<close>, the damage
  \<open>-20\<close> leaves the health 120.
\<close>

theorem Soldier_get_damage_unclamped_witness:
  "health (Soldier_get_damage 150 (new_soldier 100 0)) = - 50
   \<and> health (Soldier_get_damage 150 (new_soldier 100 0)) < 0
   \<and> health (Soldier_get_damage (- 20) (new_soldier 100 0)) = 120
   \<and> init_health (Soldier_get_damage (- 20) (new_soldier 100 0))
       < health (Soldier_get_damage (- 20) (new_soldier 100 0))"
  using Soldier_get_damage_unclamped [of 150 "new_soldier 100 0"]
    Soldier_get_damage_unclamped [of "- 20" "new_soldier 100 0"]
  by (simp add: new_soldier_def)

section \<open>Vehicle\<close>

lemma damage_each_distinct:
  "distinct as \<Longrightarrow>
     damage_each d as S a = (if a \<in> set as then Soldier_get_damage d (S a) else S a)"
  by (induction as arbitrary: S) auto

lemma length_filter_neq:
  "distinct xs \<Longrightarrow> c \<in> set xs \<Longrightarrow> length (filter (\<lambda>a. a \<noteq> c) xs) = length xs - 1"
proof (induction xs)
  case Nil
  then show ?case by simp
next
  case (Cons x xs)
  show ?case
  proof (cases "x = c")
    case True
    with Cons.prems have "c \<notin> set xs" by simp
    then have "filter (\<lambda>a. a \<noteq> c) xs = xs" by (auto simp add: filter_id_conv)
    with True show ?thesis by simp
  next
    case False
    with Cons have "length (filter (\<lambda>a. a \<noteq> c) xs) = length xs - 1" and "c \<in> set xs" by auto
    moreover from \<open>c \<in> set xs\<close> have "0 < length xs" by (cases xs) auto
    ultimately show ?thesis using False by simp
  qed
qed

text \<open>
  C2, as stated, fails when a soldier stands more than once among the operators. The
  vehicle \<^verbatim>\<open>Vehicle([a, a, b, c], random_)\<close>, all three soldiers at health 100, takes
  the damage 30, and \<^verbatim>\<open>choice\<close> picks \<open>b\<close>: \<open>b\<close> loses 6, the rest is
  \<^verbatim>\<open>[a, a, c]\<close>, each entry is dealt \<open>6/3\<close>, so \<open>a\<close> loses 4 and \<open>c\<close> loses 2.
  Neither is \<open>6/(k-1)\<close>, be \<open>k\<close> the three alive soldiers or the four entries.
\<close>

theorem Vehicle_get_damage_shared_operator_counterexample:
  "Vehicle_init [0, 0, 1, 2] 0 (PInt 100) 1001 = Inr (new_vehicle [0, 0, 1, 2])
   \<and> fst (choice (alive_operators (new_vehicle [0, 0, 1, 2]) (\<lambda>a. new_soldier 100 0))
        (constant_source 2)) = Inr 1
   \<and> health (fst (snd (snd (Vehicle_get_damage 30 (new_vehicle [0, 0, 1, 2])
        (\<lambda>a. new_soldier 100 0) (constant_source 2)))) 1) = 100 - 0.2 * 30
   \<and> health (fst (snd (snd (Vehicle_get_damage 30 (new_vehicle [0, 0, 1, 2])
        (\<lambda>a. new_soldier 100 0) (constant_source 2)))) 0) = 96
   \<and> health (fst (snd (snd (Vehicle_get_damage 30 (new_vehicle [0, 0, 1, 2])
        (\<lambda>a. new_soldier 100 0) (constant_source 2)))) 2) = 98
   \<and> (96 :: real) \<noteq> 100 - 0.2 * 30 / (3 - 1)
   \<and> (96 :: real) \<noteq> 100 - 0.2 * 30 / (4 - 1)"
  by (simp add: Vehicle_init_def Unit_init_def health_setter_numeric is_numeric_def
        last_attack_setter_def Unit.extend_def Vehicle.fields_def new_vehicle_def
        Vehicle_get_damage_def alive_operators_def Soldier_is_active_def new_soldier_def
        choice_def constant_source_def Soldier_get_damage_def advance_def Let_def)

text \<open>
  C2 (amended). For every vehicle whose alive operators are pairwise distinct soldiers and
  every damage value \<open>v\<close> (in particular every non-negative one), \<^verbatim>\<open>get_damage(v)\<close>
  returns without raising and assigns the health less \<open>0.6 * v\<close> to the vehicle's own
  health through the clamping setter. With \<open>k \<ge> 1\<close> operators alive at the call, the one
  that \<^verbatim>\<open>choice\<close> draws from the vehicle's random source receives exactly \<open>0.2 * v\<close>
  through its own \<^verbatim>\<open>get_damage\<close>, each of the other \<open>k - 1\<close> alive operators receives
  exactly \<open>0.2 * v / (k - 1)\<close>, and every other soldier, the dead operators among them,
  is left as it was. With no operator alive, no soldier is touched and no draw is made:
  the 40 percent meant for the crew are dropped.
\<close>

theorem Vehicle_get_damage_distribution:
  assumes "distinct (alive_operators vh S)"
  shows "\<exists>vh' S' g'.
           Vehicle_get_damage v vh S g = (Inr (), (vh', S', g'))
         \<and> vh' = snd (health_setter (PFloat (health vh - 0.6 * v)) vh)
         \<and> (alive_operators vh S = [] \<longrightarrow> S' = S \<and> g' = g)
         \<and> (alive_operators vh S \<noteq> [] \<longrightarrow>
              (\<exists>c. choice (alive_operators vh S) g = (Inr c, g')
                 \<and> c \<in> set (alive_operators vh S)
                 \<and> S' c = Soldier_get_damage (0.2 * v) (S c)
                 \<and> (\<forall>a \<in> set (alive_operators vh S). a \<noteq> c \<longrightarrow>
                       S' a = Soldier_get_damage
                                (0.2 * v / real (length (alive_operators vh S) - 1)) (S a))))
         \<and> (\<forall>a. a \<notin> set (alive_operators vh S) \<longrightarrow> S' a = S a)"
proof -
  define p60 where "p60 = v / 100 * 60"
  define p20 where "p20 = v / 100 * 20"
  have p60: "p60 = 0.6 * v" and p20: "p20 = 0.2 * v" by (simp_all add: p60_def p20_def)
  define vh1 where "vh1 = snd (health_setter (PFloat (health vh - p60)) vh)"
  define alive where "alive = alive_operators vh S"
  have hs: "health_setter (PFloat (health vh - p60)) vh = (Inr (), vh1)"
    by (simp add: vh1_def health_setter_numeric is_numeric_def)
  have "operators vh1 = operators vh"
    by (simp add: vh1_def health_setter_numeric is_numeric_def)
  then have alive1: "alive_operators vh1 S = alive"
    by (simp add: alive_def alive_operators_def)
  have dist: "distinct alive"
    using assms by (simp add: alive_def)
  have unfolded: "Vehicle_get_damage v vh S g =
      (if alive \<noteq> [] then
         (case choice alive g of
            (Inl e, g1) \<Rightarrow> (Inl e, (vh1, S, g1))
          | (Inr random_o, g1) \<Rightarrow>
              let S1 = S(random_o := Soldier_get_damage p20 (S random_o));
                  rest_operators = filter (\<lambda>a. a \<noteq> random_o) alive
              in if rest_operators \<noteq> [] then
                   (Inr (), (vh1,
                      damage_each (p20 / real (max (length rest_operators) 1)) rest_operators S1,
                      g1))
                 else (Inr (), (vh1, S1, g1)))
       else (Inr (), (vh1, S, g)))"
    unfolding Vehicle_get_damage_def p60_def [symmetric] p20_def [symmetric]
    by (simp add: hs alive1 Let_def split: prod.splits sum.splits)
  show ?thesis
  proof (cases "alive = []")
    case True
    then have "Vehicle_get_damage v vh S g = (Inr (), (vh1, S, g))"
      by (simp add: unfolded)
    with True show ?thesis
      unfolding alive_def [symmetric] vh1_def [symmetric] p60 [symmetric] by simp
  next
    case False
    from choice_member [OF False, of g] obtain c where
      c: "choice alive g = (Inr c, advance g)" "c \<in> set alive" by blast
    define rest where "rest = filter (\<lambda>a. a \<noteq> c) alive"
    define S1 where "S1 = S(c := Soldier_get_damage p20 (S c))"
    define S' where
      "S' = (if rest \<noteq> [] then damage_each (p20 / real (length rest)) rest S1 else S1)"
    have len: "length rest = length alive - 1"
      using dist c(2) by (simp add: rest_def length_filter_neq)
    have drest: "distinct rest" using dist by (simp add: rest_def)
    have c_rest: "c \<notin> set rest" by (simp add: rest_def)
    have result: "Vehicle_get_damage v vh S g = (Inr (), (vh1, S', advance g))"
    proof (cases "rest = []")
      case True
      then show ?thesis
        using False c(1)
        by (simp add: unfolded Let_def rest_def [symmetric] S1_def [symmetric] S'_def)
    next
      case nonempty: False
      then have "max (length rest) 1 = length rest" by (cases rest) simp_all
      with nonempty show ?thesis
        using False c(1)
        by (simp add: unfolded Let_def rest_def [symmetric] S1_def [symmetric] S'_def)
    qed
    have at_c: "S' c = Soldier_get_damage p20 (S c)"
      using c_rest by (simp add: S'_def S1_def damage_each_distinct [OF drest])
    have others: "S' a = Soldier_get_damage (p20 / real (length alive - 1)) (S a)"
      if "a \<in> set alive" "a \<noteq> c" for a
    proof -
      from that have "a \<in> set rest" by (simp add: rest_def)
      then have "rest \<noteq> []" by auto
      with \<open>a \<in> set rest\<close> that(2) show ?thesis
        by (simp add: S'_def S1_def damage_each_distinct [OF drest] len)
    qed
    have outside: "S' a = S a" if "a \<notin> set alive" for a
    proof -
      from that c(2) have "a \<noteq> c" by auto
      moreover from that have "a \<notin> set rest" by (simp add: rest_def)
      ultimately show ?thesis
        by (simp add: S'_def S1_def damage_each_distinct [OF drest])
    qed
    from False result c at_c others outside show ?thesis
      unfolding alive_def [symmetric] vh1_def [symmetric] p60 [symmetric] p20 [symmetric]
      by auto
  qed
qed

text \<open>
  C2 (amended), at a vehicle with the operators 0, 1, 2 alive at health 100 and the
  operator 3 dead, taking the damage 30 on a source whose next raw draw is 1: the hull
  goes from 100 to 82, \<^verbatim>\<open>choice\<close> picks the operator 1, which loses 6, the operators 0
  and 2 lose 3 each, and the dead operator stays at health 0.
\<close>

theorem Vehicle_get_damage_distribution_witness:
  "fst (Vehicle_get_damage 30 (new_vehicle [0, 1, 2, 3])
         ((\<lambda>a. new_soldier 100 0)(3 := Soldier_get_damage 100 (new_soldier 100 0)))
         (constant_source 1)) = Inr ()
   \<and> health (fst (snd (Vehicle_get_damage 30 (new_vehicle [0, 1, 2, 3])
         ((\<lambda>a. new_soldier 100 0)(3 := Soldier_get_damage 100 (new_soldier 100 0)))
         (constant_source 1)))) = 82
   \<and> map (\<lambda>a. health (fst (snd (snd (Vehicle_get_damage 30 (new_vehicle [0, 1, 2, 3])
         ((\<lambda>a. new_soldier 100 0)(3 := Soldier_get_damage 100 (new_soldier 100 0)))
         (constant_source 1)))) a)) [0, 1, 2, 3] = [97, 94, 97, 0]"
  using Vehicle_get_damage_distribution [of "new_vehicle [0, 1, 2, 3]"
      "(\<lambda>a. new_soldier 100 0)(3 := Soldier_get_damage 100 (new_soldier 100 0))" 30
      "constant_source 1"]
  by (simp add: health_setter_numeric is_numeric_def new_vehicle_def
        Vehicle_get_damage_def alive_operators_def Soldier_is_active_def new_soldier_def
        choice_def constant_source_def Soldier_get_damage_def advance_def Let_def)

text \<open>
  C9. For every vehicle and every numeric \<open>now\<close>, \<^verbatim>\<open>attack(now)\<close> changes nothing but
  the vehicle's \<^verbatim>\<open>last_attack\<close>, which becomes \<open>now\<close>: the vehicle's health, initial
  health and operators, every soldier (health, experience and \<^verbatim>\<open>last_attack\<close> of every
  operator), every other vehicle and every random source are as before the call. The
  operators' experience is read for the returned value only.
\<close>

theorem Vehicle_attack_frame:
  assumes "is_numeric now"
  shows "snd (step (VehicleAttack a now) w)
           = w\<lparr>vehicles := (vehicles w)(a := (vehicles w a)\<lparr>last_attack := num now\<rparr>)\<rparr>
         \<and> soldiers (snd (step (VehicleAttack a now) w)) = soldiers w
         \<and> randoms (snd (step (VehicleAttack a now) w)) = randoms w
         \<and> health (vehicles (snd (step (VehicleAttack a now) w)) a) = health (vehicles w a)
         \<and> init_health (vehicles (snd (step (VehicleAttack a now) w)) a)
             = init_health (vehicles w a)
         \<and> operators (vehicles (snd (step (VehicleAttack a now) w)) a) = operators (vehicles w a)
         \<and> last_attack (vehicles (snd (step (VehicleAttack a now) w)) a) = num now
         \<and> fst (step (VehicleAttack a now) w)
             = Returned (0.1 + real_of_int (sum_list (map (\<lambda>b. experience (soldiers w b))
                                                         (operators (vehicles w a)))) / 100)"
  using assms
  by (simp add: Vehicle_attack_def last_attack_setter_def is_numeric_def)

text \<open>
  C9, at a vehicle with three operators of experience 0 attacking at time 10: the call
  returns \<open>0.1\<close>, and the soldiers and random sources are those of before.
\<close>

theorem Vehicle_attack_frame_witness:
  "fst (step (VehicleAttack 0 (PInt 10)) (new_world 0)) = Returned (1 / 10)
   \<and> soldiers (snd (step (VehicleAttack 0 (PInt 10)) (new_world 0))) = soldiers (new_world 0)
   \<and> randoms (snd (step (VehicleAttack 0 (PInt 10)) (new_world 0))) = randoms (new_world 0)
   \<and> last_attack (vehicles (snd (step (VehicleAttack 0 (PInt 10)) (new_world 0))) 0) = 10
   \<and> health (vehicles (snd (step (VehicleAttack 0 (PInt 10)) (new_world 0))) 0) = 100"
  using Vehicle_attack_frame [of "PInt 10" 0 "new_world 0"]
  by (simp add: is_numeric_def new_world_def new_vehicle_def new_soldier_def)

section \<open>Determinism\<close>

text \<open>
  Every method reads a random source only at its current position and leaves it one
  position further: what it returns and what it does depend on the draws still to come,
  never on the way the source got there.
\<close>

lemma same_draws_refl: "same_draws g g"
  by (simp add: same_draws_def)

lemma same_state_equal:
  "randoms w1 = randoms w2 \<Longrightarrow> soldiers w1 = soldiers w2 \<Longrightarrow> vehicles w1 = vehicles w2
     \<Longrightarrow> same_state w1 w2"
  by (simp add: same_state_def same_draws_refl)

lemma same_draws_now: "same_draws g1 g2 \<Longrightarrow> tape g1 (pos g1) = tape g2 (pos g2)"
proof -
  assume "same_draws g1 g2"
  then have "tape g1 (pos g1 + 0) = tape g2 (pos g2 + 0)"
    unfolding same_draws_def by blast
  then show ?thesis by simp
qed

lemma same_draws_advance: "same_draws g1 g2 \<Longrightarrow> same_draws (advance g1) (advance g2)"
proof -
  assume a: "same_draws g1 g2"
  have "tape g1 (Suc (pos g1) + n) = tape g2 (Suc (pos g2) + n)" for n
    using a [unfolded same_draws_def, rule_format, of "Suc n"] by simp
  then show ?thesis by (simp add: same_draws_def advance_def)
qed

lemma randint_same_draws:
  assumes "same_draws g1 g2"
  shows "fst (randint a b g1) = fst (randint a b g2)
         \<and> same_draws (snd (randint a b g1)) (snd (randint a b g2))"
  using assms same_draws_now [OF assms] same_draws_advance [OF assms]
  by (simp add: randint_def)

lemma choice_same_draws:
  assumes "same_draws g1 g2"
  shows "fst (choice xs g1) = fst (choice xs g2)
         \<and> same_draws (snd (choice xs g1)) (snd (choice xs g2))"
  using assms same_draws_now [OF assms] same_draws_advance [OF assms]
  by (simp add: choice_def)

lemma Soldier_success_same_draws:
  assumes "same_draws g1 g2"
  shows "fst (Soldier_success s g1) = fst (Soldier_success s g2)
         \<and> same_draws (snd (Soldier_success s g1)) (snd (Soldier_success s g2))"
proof -
  obtain r1 h1 where r1: "randint (50 + experience s) 100 g1 = (r1, h1)" by (cases "randint (50 + experience s) 100 g1")
  obtain r2 h2 where r2: "randint (50 + experience s) 100 g2 = (r2, h2)" by (cases "randint (50 + experience s) 100 g2")
  from randint_same_draws [OF assms, of "50 + experience s" 100] r1 r2
  have "r1 = r2" and "same_draws h1 h2" by simp_all
  then show ?thesis
    by (cases r2) (simp_all add: Soldier_success_def r1 r2)
qed

lemma random_operator_same_draws:
  "same_draws g1 g2 \<Longrightarrow> random_operator vh S g1 = random_operator vh S g2"
  using choice_same_draws [of g1 g2 "alive_operators vh S"]
  by (simp add: random_operator_def)

lemma random_operator_choice:
  "alive_operators vh S \<noteq> [] \<Longrightarrow>
     \<exists>c. choice (alive_operators vh S) g = (Inr c, advance g) \<and> random_operator vh S g = Some c"
  by (simp add: random_operator_def choice_def)

lemma Vehicle_get_damage_same_draws:
  assumes "same_draws g1 g2"
  shows "fst (Vehicle_get_damage v vh S g1) = fst (Vehicle_get_damage v vh S g2)
         \<and> fst (snd (Vehicle_get_damage v vh S g1)) = fst (snd (Vehicle_get_damage v vh S g2))
         \<and> fst (snd (snd (Vehicle_get_damage v vh S g1)))
             = fst (snd (snd (Vehicle_get_damage v vh S g2)))
         \<and> same_draws (snd (snd (snd (Vehicle_get_damage v vh S g1))))
             (snd (snd (snd (Vehicle_get_damage v vh S g2))))"
proof -
  define vh1 where "vh1 = snd (health_setter (PFloat (health vh - v / 100 * 60)) vh)"
  define alive where "alive = alive_operators vh1 S"
  have hs: "health_setter (PFloat (health vh - v / 100 * 60)) vh = (Inr (), vh1)"
    by (simp add: vh1_def health_setter_numeric is_numeric_def)
  obtain r1 h1 where r1: "choice alive g1 = (r1, h1)" by (cases "choice alive g1")
  obtain r2 h2 where r2: "choice alive g2 = (r2, h2)" by (cases "choice alive g2")
  from choice_same_draws [OF assms, of alive] r1 r2
  have eq: "r1 = r2" and h: "same_draws h1 h2" by simp_all
  show ?thesis
    unfolding Vehicle_get_damage_def Let_def hs
    using assms h
    by (cases r2) (simp_all add: alive_def [symmetric] r1 r2 eq)
qed

lemma operators_success_same_draws:
  assumes "\<forall>k. same_draws (R1 k) (R2 k)"
  shows "fst (operators_success ops S R1) = fst (operators_success ops S R2)
         \<and> (\<forall>k. same_draws (snd (operators_success ops S R1) k)
                             (snd (operators_success ops S R2) k))"
  using assms
proof (induction ops arbitrary: R1 R2)
  case Nil
  then show ?case by simp
next
  case (Cons a as)
  define j where "j = random_src (S a)"
  obtain r1 h1 where r1: "Soldier_success (S a) (R1 j) = (r1, h1)"
    by (cases "Soldier_success (S a) (R1 j)")
  obtain r2 h2 where r2: "Soldier_success (S a) (R2 j) = (r2, h2)"
    by (cases "Soldier_success (S a) (R2 j)")
  from Cons.prems have "same_draws (R1 j) (R2 j)" by blast
  from Soldier_success_same_draws [OF this, of "S a"] r1 r2
  have eq: "r1 = r2" and h: "same_draws h1 h2" by simp_all
  from Cons.prems h have rel: "\<forall>k. same_draws ((R1(j := h1)) k) ((R2(j := h2)) k)"
    by simp
  have ih: "fst (operators_success as S (R1(j := h1))) = fst (operators_success as S (R2(j := h2)))
      \<and> (\<forall>k. same_draws (snd (operators_success as S (R1(j := h1))) k)
                          (snd (operators_success as S (R2(j := h2))) k))"
    using rel by (rule Cons.IH)
  show ?case
  proof (cases r2)
    case (Inl e)
    with rel show ?thesis by (simp add: j_def [symmetric] r1 r2 eq)
  next
    case (Inr p)
    obtain q1 Q1 where q1: "operators_success as S (R1(j := h1)) = (q1, Q1)"
      by (cases "operators_success as S (R1(j := h1))")
    obtain q2 Q2 where q2: "operators_success as S (R2(j := h2)) = (q2, Q2)"
      by (cases "operators_success as S (R2(j := h2))")
    from ih q1 q2 have "q1 = q2" and "\<forall>k. same_draws (Q1 k) (Q2 k)" by simp_all
    with rel Inr show ?thesis
      by (cases q2) (simp_all add: j_def [symmetric] r1 r2 eq q1 q2)
  qed
qed

lemma Vehicle_success_same_draws:
  assumes "\<forall>k. same_draws (R1 k) (R2 k)"
  shows "fst (Vehicle_success vh S R1) = fst (Vehicle_success vh S R2)
         \<and> (\<forall>k. same_draws (snd (Vehicle_success vh S R1) k) (snd (Vehicle_success vh S R2) k))"
proof -
  obtain q1 Q1 where q1: "operators_success (operators vh) S R1 = (q1, Q1)"
    by (cases "operators_success (operators vh) S R1")
  obtain q2 Q2 where q2: "operators_success (operators vh) S R2 = (q2, Q2)"
    by (cases "operators_success (operators vh) S R2")
  from operators_success_same_draws [OF assms, of "operators vh" S] q1 q2
  have "q1 = q2" and "\<forall>k. same_draws (Q1 k) (Q2 k)" by simp_all
  then show ?thesis
    by (simp add: Vehicle_success_def geometric_mean_def q1 q2
          split: sum.splits error.splits)
qed

lemma step_same_state:
  assumes "same_state w1 w2"
  shows "fst (step c w1) = fst (step c w2) \<and> same_state (snd (step c w1)) (snd (step c w2))
         \<and> selection c w1 = selection c w2"
proof -
  from assms have S: "soldiers w1 = soldiers w2" and V: "vehicles w1 = vehicles w2"
    and R: "\<forall>k. same_draws (randoms w1 k) (randoms w2 k)"
    by (simp_all add: same_state_def)
  show ?thesis
  proof (cases c)
    case (SoldierSuccess a)
    define s where "s = soldiers w2 a"
    obtain r1 h1 where r1: "Soldier_success s (randoms w1 (random_src s)) = (r1, h1)"
      by (cases "Soldier_success s (randoms w1 (random_src s))")
    obtain r2 h2 where r2: "Soldier_success s (randoms w2 (random_src s)) = (r2, h2)"
      by (cases "Soldier_success s (randoms w2 (random_src s))")
    from R have "same_draws (randoms w1 (random_src s)) (randoms w2 (random_src s))" by blast
    from Soldier_success_same_draws [OF this, of s] r1 r2
    have "r1 = r2" and "same_draws h1 h2" by simp_all
    with S V R show ?thesis
      by (cases r2) (simp_all add: SoldierSuccess s_def [symmetric] r1 r2 same_state_def)
  next
    case (SoldierAttack a now)
    with S V R show ?thesis
      by (simp add: same_state_def split: prod.splits sum.splits)
  next
    case (SoldierGetDamage a v)
    with S V R show ?thesis by (simp add: same_state_def)
  next
    case (VehicleSuccess a)
    obtain q1 Q1 where q1: "Vehicle_success (vehicles w2 a) (soldiers w2) (randoms w1) = (q1, Q1)"
      by (cases "Vehicle_success (vehicles w2 a) (soldiers w2) (randoms w1)")
    obtain q2 Q2 where q2: "Vehicle_success (vehicles w2 a) (soldiers w2) (randoms w2) = (q2, Q2)"
      by (cases "Vehicle_success (vehicles w2 a) (soldiers w2) (randoms w2)")
    from Vehicle_success_same_draws [OF R, of "vehicles w2 a" "soldiers w2"] q1 q2
    have "q1 = q2" and "\<forall>k. same_draws (Q1 k) (Q2 k)" by simp_all
    with S V show ?thesis
      by (cases q2) (simp_all add: VehicleSuccess q1 q2 same_state_def)
  next
    case (VehicleAttack a now)
    with S V R show ?thesis
      by (simp add: same_state_def split: prod.splits sum.splits)
  next
    case (VehicleGetDamage a v)
    define vh where "vh = vehicles w2 a"
    define j where "j = random_src vh"
    obtain r1 vh1 S1 h1 where
      d1: "Vehicle_get_damage v vh (soldiers w2) (randoms w1 j) = (r1, (vh1, S1, h1))"
      by (cases "Vehicle_get_damage v vh (soldiers w2) (randoms w1 j)") auto
    obtain r2 vh2 S2 h2 where
      d2: "Vehicle_get_damage v vh (soldiers w2) (randoms w2 j) = (r2, (vh2, S2, h2))"
      by (cases "Vehicle_get_damage v vh (soldiers w2) (randoms w2 j)") auto
    from R have g: "same_draws (randoms w1 j) (randoms w2 j)" by blast
    from Vehicle_get_damage_same_draws [OF g, of v vh "soldiers w2"] d1 d2
    have "r1 = r2" and "vh1 = vh2" and "S1 = S2" and "same_draws h1 h2" by simp_all
    moreover from random_operator_same_draws [OF g]
    have "random_operator vh (soldiers w2) (randoms w1 j)
            = random_operator vh (soldiers w2) (randoms w2 j)" .
    ultimately show ?thesis
      using S V R
      by (simp add: VehicleGetDamage vh_def [symmetric] j_def [symmetric] d1 d2 same_state_def)
  qed
qed

text \<open>
  C8. Two runs that start from random sources seeded and used alike (in particular from
  identically seeded ones), soldiers in equal states and vehicles in equal states, and
  that make the same sequence of \<^verbatim>\<open>success\<close> reads, \<^verbatim>\<open>attack\<close> calls and
  \<^verbatim>\<open>get_damage\<close> calls, make the same number of calls and agree at every call: on the
  value returned (every success value, every attack payload) or the exception raised, on
  the operator that \<^verbatim>\<open>choice\<close> selects, and on the state of every soldier and every
  vehicle after the call (every health and experience); their random sources are again
  alike after every call.
\<close>

theorem run_deterministic:
  assumes "same_state w1 w2"
  shows "list_all2 (\<lambda>x y. fst x = fst y \<and> same_state (snd x) (snd y)) (run cs w1) (run cs w2)
         \<and> selections cs w1 = selections cs w2"
  using assms
proof (induction cs arbitrary: w1 w2)
  case Nil
  then show ?case by simp
next
  case (Cons c cs)
  obtain r1 v1 where s1: "step c w1 = (r1, v1)" by (cases "step c w1")
  obtain r2 v2 where s2: "step c w2 = (r2, v2)" by (cases "step c w2")
  from step_same_state [OF Cons.prems, of c] s1 s2
  have eq: "r1 = r2" and st: "same_state v1 v2" and sel: "selection c w1 = selection c w2"
    by simp_all
  note ih = Cons.IH [OF st]
  from eq st sel ih show ?case
    by (cases r2) (simp_all add: s1 s2)
qed

text \<open>
  C8, at two worlds with soldiers and vehicles alike, whose sources give the raw draws
  0, 1, 2, ... from now on, the one fresh and the other after five draws. A soldier reads
  its success twice (the draws 50 and 51), attacks, a vehicle takes the damage 30 (the
  operator 2 is selected), and the vehicle whose only operator is that soldier reads its
  success (the draw 54 at the soldier's health 97).
\<close>

theorem run_deterministic_witness:
  "map fst (run [SoldierSuccess 0, SoldierSuccess 0, SoldierAttack 0 (PInt 10),
                 VehicleGetDamage 0 30, VehicleSuccess 1] (counting_world 0))
     = [Returned (50 / 100), Returned (51 / 100), Returned (5 / 100), ReturnedNone,
        Returned (0.5 * (1 + 97 / 100) * 54 / 100)]
   \<and> selections [SoldierSuccess 0, SoldierSuccess 0, SoldierAttack 0 (PInt 10),
                  VehicleGetDamage 0 30, VehicleSuccess 1] (counting_world 0)
     = [None, None, None, Some 2, None]
   \<and> list_all2 (\<lambda>x y. fst x = fst y \<and> same_state (snd x) (snd y))
        (run [SoldierSuccess 0, SoldierSuccess 0, SoldierAttack 0 (PInt 10),
              VehicleGetDamage 0 30, VehicleSuccess 1] (counting_world 0))
        (run [SoldierSuccess 0, SoldierSuccess 0, SoldierAttack 0 (PInt 10),
              VehicleGetDamage 0 30, VehicleSuccess 1] (counting_world 5))
   \<and> selections [SoldierSuccess 0, SoldierSuccess 0, SoldierAttack 0 (PInt 10),
                  VehicleGetDamage 0 30, VehicleSuccess 1] (counting_world 5)
     = [None, None, None, Some 2, None]"
proof -
  have alike: "same_state (counting_world 0) (counting_world 5)"
    by (simp add: same_state_def same_draws_def counting_world_def)
  have outcomes: "map fst (run [SoldierSuccess 0, SoldierSuccess 0, SoldierAttack 0 (PInt 10),
                 VehicleGetDamage 0 30, VehicleSuccess 1] (counting_world 0))
     = [Returned (50 / 100), Returned (51 / 100), Returned (5 / 100), ReturnedNone,
        Returned (0.5 * (1 + 97 / 100) * 54 / 100)]"
    by (simp add: counting_world_def new_soldier_def new_vehicle_def
        Soldier_success_def randint_def advance_def Soldier_attack_def last_attack_setter_def
        experience_setter_int health_setter_numeric is_numeric_def
        Vehicle_get_damage_def alive_operators_def Soldier_is_active_def
        choice_def Soldier_get_damage_def Vehicle_success_def geometric_mean_def Let_def)
  have picked: "selections [SoldierSuccess 0, SoldierSuccess 0, SoldierAttack 0 (PInt 10),
                  VehicleGetDamage 0 30, VehicleSuccess 1] (counting_world 0)
     = [None, None, None, Some 2, None]"
    by (simp add: counting_world_def new_soldier_def new_vehicle_def
        Soldier_success_def randint_def advance_def Soldier_attack_def last_attack_setter_def
        experience_setter_int health_setter_numeric is_numeric_def random_operator_def
        Vehicle_get_damage_def alive_operators_def Soldier_is_active_def
        choice_def Soldier_get_damage_def Vehicle_success_def geometric_mean_def Let_def)
  from run_deterministic [OF alike, of "[SoldierSuccess 0, SoldierSuccess 0,
      SoldierAttack 0 (PInt 10), VehicleGetDamage 0 30, VehicleSuccess 1]"] outcomes picked
  show ?thesis by simp
qed

end
